theory Spec2Isabelle
  imports Complex_Main "HOL-Library.AList"
begin

section \<open>Numbers and table look-ups of the source language\<close>

text \<open>
  The calculation engine (\<^verbatim>\<open>client/src/lib/solar-calculations.ts\<close>) and its result
  cache (\<^verbatim>\<open>client/src/lib/calculation-cache.ts\<close>) are embedded below.

  Scope of the model.
  \<^item> The numeric fields of an input are finite numbers, taken as exact real numbers: the
    rounding error of binary64 arithmetic is not modelled, and neither are the inputs
    \<^verbatim>\<open>NaN\<close> and \<^verbatim>\<open>Infinity\<close>.
  \<^item> Values computed from them have type \<open>number\<close>, which adds the three non-finite values
    a computation on finite operands can produce in the source language: a division by
    zero yields an infinity or \<^verbatim>\<open>NaN\<close>, and an object used as an operand converts to
    \<^verbatim>\<open>NaN\<close>. The negative zero is not told apart from zero; a zero divisor counts as
    the positive zero.
  \<^item> A result is a value: once built it is not written to, as in the two modules.
  \<^item> Strings are byte strings; \<^verbatim>\<open>toLowerCase\<close> is modelled on the ASCII letters.
\<close>

datatype number = Fin real | PosInf | NegInf | NaN

fun mul :: "number \<Rightarrow> number \<Rightarrow> number" where
  "mul (Fin a) (Fin b) = Fin (a * b)"
| "mul NaN _ = NaN"
| "mul _ NaN = NaN"
| "mul (Fin a) PosInf = (if a = 0 then NaN else if 0 < a then PosInf else NegInf)"
| "mul (Fin a) NegInf = (if a = 0 then NaN else if 0 < a then NegInf else PosInf)"
| "mul PosInf (Fin b) = (if b = 0 then NaN else if 0 < b then PosInf else NegInf)"
| "mul NegInf (Fin b) = (if b = 0 then NaN else if 0 < b then NegInf else PosInf)"
| "mul PosInf PosInf = PosInf"
| "mul PosInf NegInf = NegInf"
| "mul NegInf PosInf = NegInf"
| "mul NegInf NegInf = PosInf"

fun sub :: "number \<Rightarrow> number \<Rightarrow> number" where
  "sub (Fin a) (Fin b) = Fin (a - b)"
| "sub NaN _ = NaN"
| "sub _ NaN = NaN"
| "sub (Fin a) PosInf = NegInf"
| "sub (Fin a) NegInf = PosInf"
| "sub PosInf (Fin b) = PosInf"
| "sub NegInf (Fin b) = NegInf"
| "sub PosInf PosInf = NaN"
| "sub PosInf NegInf = PosInf"
| "sub NegInf PosInf = NegInf"
| "sub NegInf NegInf = NaN"

text \<open>Division never raises: a zero divisor gives an infinity, or \<^verbatim>\<open>NaN\<close> for \<open>0 / 0\<close>.\<close>

fun divide_number :: "number \<Rightarrow> number \<Rightarrow> number" where
  "divide_number (Fin a) (Fin b) =
     (if b \<noteq> 0 then Fin (a / b)
      else if a = 0 then NaN else if 0 < a then PosInf else NegInf)"
| "divide_number NaN _ = NaN"
| "divide_number _ NaN = NaN"
| "divide_number (Fin a) PosInf = Fin 0"
| "divide_number (Fin a) NegInf = Fin 0"
| "divide_number PosInf (Fin b) = (if 0 \<le> b then PosInf else NegInf)"
| "divide_number NegInf (Fin b) = (if 0 \<le> b then NegInf else PosInf)"
| "divide_number PosInf PosInf = NaN"
| "divide_number PosInf NegInf = NaN"
| "divide_number NegInf PosInf = NaN"
| "divide_number NegInf NegInf = NaN"

text \<open>\<^verbatim>\<open>Math.round\<close>: the nearest integer, a tie going up; non-finite values are kept.\<close>

definition round_half_up :: "real \<Rightarrow> real" where
  "round_half_up x = of_int \<lfloor>x + 1 / 2\<rfloor>"

fun Math_round :: "number \<Rightarrow> number" where
  "Math_round (Fin a) = Fin (round_half_up a)"
| "Math_round PosInf = PosInf"
| "Math_round NegInf = NegInf"
| "Math_round NaN = NaN"

text \<open>
  What indexing one of the constant tables yields. The tables are object literals, so a
  key that is not one of their own keys is still found when \<^verbatim>\<open>Object.prototype\<close>
  has a property of that name; the value is then a function or an object, which is
  truthy and converts to \<^verbatim>\<open>NaN\<close> in arithmetic.
\<close>

datatype jsvalue = Undefined | Num real | Obj

fun truthy :: "jsvalue \<Rightarrow> bool" where
  "truthy Undefined = False"
| "truthy (Num r) = (r \<noteq> 0)"
| "truthy Obj = True"

text \<open>\<^verbatim>\<open>a || b\<close>\<close>

definition or_else :: "jsvalue \<Rightarrow> jsvalue \<Rightarrow> jsvalue" where
  "or_else a b = (if truthy a then a else b)"

fun ToNumber :: "jsvalue \<Rightarrow> number" where
  "ToNumber Undefined = NaN"
| "ToNumber (Num r) = Fin r"
| "ToNumber Obj = NaN"

definition Object_prototype :: "string list" where
  "Object_prototype =
     [''constructor'', ''__defineGetter__'', ''__defineSetter__'', ''hasOwnProperty'',
      ''__lookupGetter__'', ''__lookupSetter__'', ''isPrototypeOf'',
      ''propertyIsEnumerable'', ''toString'', ''valueOf'', ''__proto__'',
      ''toLocaleString'']"

definition get_property :: "(string \<times> real) list \<Rightarrow> string \<Rightarrow> jsvalue" where
  "get_property table k =
     (case map_of table k of
        Some r \<Rightarrow> Num r
      | None \<Rightarrow> if k \<in> set Object_prototype then Obj else Undefined)"

definition toLowerCase_char :: "char \<Rightarrow> char" where
  "toLowerCase_char c =
     (let n = (of_char c :: nat) in if 65 \<le> n \<and> n \<le> 90 then char_of (n + 32) else c)"

definition toLowerCase :: "string \<Rightarrow> string" where
  "toLowerCase s = map toLowerCase_char s"

text \<open>The infix operators of the source on \<open>number\<close>.\<close>

instantiation number :: "{times, minus, inverse}"
begin

definition times_number :: "number \<Rightarrow> number \<Rightarrow> number" where
  "times_number = mul"

definition minus_number :: "number \<Rightarrow> number \<Rightarrow> number" where
  "minus_number = sub"

definition divide_number_inst: "divide = divide_number"

definition inverse_number :: "number \<Rightarrow> number" where
  "inverse_number x = divide_number (Fin 1) x"

instance ..

end

section \<open>The calculation engine\<close>

text \<open>\<^verbatim>\<open>interface SolarCalculationInputs\<close> (solar-calculations.ts, lines 1-10).\<close>

record SolarCalculationInputs =
  systemSize :: real
  monthlyUsage :: real
  currentBill :: real
  rateTier :: string
  installationType :: string
  panelQuality :: string
  batteryStorage :: string
  location :: string

text \<open>
  \<^verbatim>\<open>interface SolarCalculationResults\<close> (lines 12-23). Its first field is the input's
  \<^verbatim>\<open>systemSize\<close>, here \<open>systemSizeKw\<close> since a record field name is used once.
\<close>

record SolarCalculationResults =
  systemSizeKw :: real
  annualProduction :: number
  totalCost :: number
  cleanBcRebates :: number
  federalIncentives :: number
  netCost :: number
  annualSavings :: number
  paybackPeriod :: number
  roi25Year :: number
  co2OffsetAnnual :: number

text \<open>The constant tables (lines 25-41), with their own keys in source order.\<close>

definition BC_SOLAR_IRRADIANCE :: "(string \<times> real) list" where
  "BC_SOLAR_IRRADIANCE =
     [(''vancouver'', 3.2), (''victoria'', 3.5), (''kelowna'', 3.8), (''kamloops'', 3.6),
      (''prince_george'', 3.1), (''default'', 3.3)]"

definition BC_COMMERCIAL_RATES :: "(string \<times> real) list" where
  "BC_COMMERCIAL_RATES =
     [(''Small General Service'', 0.1139), (''Medium General Service'', 0.1059),
      (''Large General Service'', 0.0879), (''Transmission Service'', 0.0759)]"

text \<open>
  The three \<^verbatim>\<open>throw new Error(...)\<close> of \<^verbatim>\<open>calculateCommercialSolar\<close> (lines 64, 80, 84).
  The first guards against an argument that is no object, which the parameter's type
  excludes; no input of the model raises it.
\<close>

datatype error =
    Invalid_input_data
  | Must_be_positive_numbers
  | Options_must_be_selected

text \<open>
  The local variables of \<^verbatim>\<open>calculateCommercialSolar\<close> as functions of the input, in
  the order of lines 87-185. A local whose name is also a result field carries the
  suffix \<open>_raw\<close>: it is the value before \<^verbatim>\<open>Math.round\<close>. Quantities built from the
  input's numbers and numeric literals alone by \<open>+\<close>, \<open>-\<close>, \<open>*\<close> and \<^verbatim>\<open>Math.min\<close> are
  finite and have type \<open>real\<close>.
\<close>

definition locationKey :: "SolarCalculationInputs \<Rightarrow> string" where
  "locationKey i =
     (let lower = toLowerCase (location i) in if lower = [] then ''default'' else lower)"

definition irradiance :: "SolarCalculationInputs \<Rightarrow> jsvalue" where
  "irradiance i =
     or_else (get_property BC_SOLAR_IRRADIANCE (locationKey i))
             (get_property BC_SOLAR_IRRADIANCE ''default'')"

definition systemEfficiency :: "SolarCalculationInputs \<Rightarrow> real" where
  "systemEfficiency i =
     (let eff = 0.85;
          eff = (if panelQuality i = ''High Efficiency'' then eff * 1.1
                 else if panelQuality i = ''Premium Tier 1'' then eff * 1.15
                 else eff);
          eff = (if installationType i = ''Ground-Mount'' then eff * 1.05
                 else if installationType i = ''Tracker System'' then eff * 1.25
                 else eff)
      in eff)"

definition peakSunHours :: "SolarCalculationInputs \<Rightarrow> number" where
  "peakSunHours i = ToNumber (irradiance i) * Fin 365"

definition annualProduction_raw :: "SolarCalculationInputs \<Rightarrow> number" where
  "annualProduction_raw i = Fin (systemSize i) * peakSunHours i * Fin (systemEfficiency i)"

definition baseCostPerKw :: "SolarCalculationInputs \<Rightarrow> real" where
  "baseCostPerKw i =
     (let cost = 1750;
          cost = (if installationType i = ''Ground-Mount'' then cost * 1.1
                  else if installationType i = ''Carport/Canopy'' then cost * 1.3
                  else if installationType i = ''Tracker System'' then cost * 1.5
                  else cost);
          cost = (if panelQuality i = ''High Efficiency'' then cost * 1.15
                  else if panelQuality i = ''Premium Tier 1'' then cost * 1.25
                  else cost)
      in cost)"

definition totalCost_raw :: "SolarCalculationInputs \<Rightarrow> real" where
  "totalCost_raw i =
     (let total = systemSize i * baseCostPerKw i
      in if batteryStorage i = ''50kWh Commercial Battery'' then total + 75000
         else if batteryStorage i = ''100kWh Commercial Battery'' then total + 140000
         else if batteryStorage i = ''200kWh+ Custom Solution'' then total + 250000
         else total)"

definition cleanBcRebates_raw :: "SolarCalculationInputs \<Rightarrow> real" where
  "cleanBcRebates_raw i =
     (if systemSize i \<ge> 20 \<and> systemSize i \<le> 100 then min (systemSize i * 500) 50000
      else if systemSize i > 100 then min (systemSize i * 400) 125000
      else 0)"

definition federalIncentives_raw :: "SolarCalculationInputs \<Rightarrow> real" where
  "federalIncentives_raw i = totalCost_raw i * 0.30"

definition netCost_raw :: "SolarCalculationInputs \<Rightarrow> real" where
  "netCost_raw i = totalCost_raw i - cleanBcRebates_raw i - federalIncentives_raw i"

definition energyRate :: "SolarCalculationInputs \<Rightarrow> jsvalue" where
  "energyRate i =
     or_else (get_property BC_COMMERCIAL_RATES (rateTier i))
             (get_property BC_COMMERCIAL_RATES ''Medium General Service'')"

definition annualSavings_raw :: "SolarCalculationInputs \<Rightarrow> number" where
  "annualSavings_raw i = annualProduction_raw i * ToNumber (energyRate i)"

definition paybackPeriod_raw :: "SolarCalculationInputs \<Rightarrow> number" where
  "paybackPeriod_raw i = Fin (netCost_raw i) / annualSavings_raw i"

definition totalSavings25Year :: "SolarCalculationInputs \<Rightarrow> number" where
  "totalSavings25Year i = annualSavings_raw i * Fin 25"

definition roi25Year_raw :: "SolarCalculationInputs \<Rightarrow> number" where
  "roi25Year_raw i =
     ((totalSavings25Year i - Fin (netCost_raw i)) / Fin (netCost_raw i)) * Fin 100"

definition co2OffsetAnnual_raw :: "SolarCalculationInputs \<Rightarrow> number" where
  "co2OffsetAnnual_raw i = (annualProduction_raw i * Fin 0.42) / Fin 1000"

text \<open>
  Lines 62-198: the body of \<^verbatim>\<open>calculateCommercialSolar\<close> between the cache look-up and
  the cache insertion, that is the direct computation (the specification's \<open>compute\<close>).
  An empty string is the falsy string of lines 83-85.
\<close>

definition compute :: "SolarCalculationInputs \<Rightarrow> error + SolarCalculationResults" where
  "compute i =
     (if systemSize i \<le> 0 \<or> monthlyUsage i \<le> 0 \<or> currentBill i \<le> 0
      then Inl Must_be_positive_numbers
      else if rateTier i = [] \<or> installationType i = [] \<or> panelQuality i = []
              \<or> batteryStorage i = []
      then Inl Options_must_be_selected
      else Inr \<lparr>
        systemSizeKw = systemSize i,
        annualProduction = Math_round (annualProduction_raw i),
        totalCost = Math_round (Fin (totalCost_raw i)),
        cleanBcRebates = Math_round (Fin (cleanBcRebates_raw i)),
        federalIncentives = Math_round (Fin (federalIncentives_raw i)),
        netCost = Math_round (Fin (netCost_raw i)),
        annualSavings = Math_round (annualSavings_raw i),
        paybackPeriod = Math_round (paybackPeriod_raw i * Fin 10) / Fin 10,
        roi25Year = Math_round (roi25Year_raw i * Fin 10) / Fin 10,
        co2OffsetAnnual = Math_round (co2OffsetAnnual_raw i * Fin 10) / Fin 10 \<rparr>)"

section \<open>The result cache\<close>

text \<open>\<^verbatim>\<open>interface CacheEntry\<close> (calculation-cache.ts, lines 12-15); times are epoch milliseconds.\<close>

record CacheEntry =
  result :: SolarCalculationResults
  timestamp :: int

text \<open>
  \<^verbatim>\<open>generateKey\<close> (lines 21-32) serialises the eight fields in a fixed order with
  \<^verbatim>\<open>JSON.stringify\<close>. On finite numbers and strings that serialisation determines each
  field, so the key is modelled as the tuple of the eight fields in that order.
\<close>

type_synonym key = "real \<times> real \<times> real \<times> string \<times> string \<times> string \<times> string \<times> string"

definition generateKey :: "SolarCalculationInputs \<Rightarrow> key" where
  "generateKey inputs =
     (systemSize inputs, monthlyUsage inputs, currentBill inputs, rateTier inputs,
      installationType inputs, panelQuality inputs, batteryStorage inputs, location inputs)"

definition CACHE_DURATION :: int where
  "CACHE_DURATION = 5 * 60 * 1000"

text \<open>
  The private \<^verbatim>\<open>Map<string, CacheEntry>\<close> (line 18) is the list of its entries in
  insertion order. \<^verbatim>\<open>Map.get\<close> is \<open>map_of\<close>; \<^verbatim>\<open>Map.set\<close> is \<open>AList.update\<close>, which
  replaces the value of a key that is present and appends a new key at the end;
  \<^verbatim>\<open>Map.delete\<close> is \<open>AList.delete\<close>; \<^verbatim>\<open>Map.size\<close> is the length. The keys of a
  \<^verbatim>\<open>Map\<close> are distinct, which these operations preserve.
\<close>

type_synonym cache = "(key \<times> CacheEntry) list"

text \<open>
  \<^verbatim>\<open>get\<close> (lines 34-47), with the reading \<open>now\<close> of \<^verbatim>\<open>Date.now()\<close> at line 41. It returns
  the result, \<open>None\<close> for \<^verbatim>\<open>null\<close>, and the cache it leaves.
\<close>

definition cache_get ::
  "cache \<Rightarrow> int \<Rightarrow> SolarCalculationInputs \<Rightarrow> SolarCalculationResults option \<times> cache" where
  "cache_get c now inputs =
     (let key = generateKey inputs in
      case map_of c key of
        None \<Rightarrow> (None, c)
      | Some entry \<Rightarrow>
          if now - timestamp entry > CACHE_DURATION then (None, AList.delete key c)
          else (Some (result entry), c))"

text \<open>
  \<^verbatim>\<open>cleanup\<close> (lines 62-69), with the reading \<open>now\<close> of line 63. The loop runs over
  the entries of the map; the only entry a step deletes is the one it visits, so the
  entries still to visit are those of the map at the start.
\<close>

fun cleanup_loop :: "(key \<times> CacheEntry) list \<Rightarrow> int \<Rightarrow> cache \<Rightarrow> cache" where
  "cleanup_loop [] now c = c"
| "cleanup_loop ((key, entry) # entries) now c =
     cleanup_loop entries now
       (if now - timestamp entry > CACHE_DURATION then AList.delete key c else c)"

definition cache_cleanup :: "cache \<Rightarrow> int \<Rightarrow> cache" where
  "cache_cleanup c now = cleanup_loop c now c"

text \<open>
  \<^verbatim>\<open>set\<close> (lines 49-60): \<open>now\<close> is the reading of line 53 and \<open>now'\<close> the one taken by
  \<^verbatim>\<open>cleanup\<close>.
\<close>

definition cache_set ::
  "cache \<Rightarrow> int \<Rightarrow> int \<Rightarrow> SolarCalculationInputs \<Rightarrow> SolarCalculationResults \<Rightarrow> cache" where
  "cache_set c now now' inputs res =
     (let key = generateKey inputs;
          c' = AList.update key \<lparr>result = res, timestamp = now\<rparr> c
      in if length c' > 100 then cache_cleanup c' now' else c')"

text \<open>\<^verbatim>\<open>clear\<close> (lines 71-73).\<close>

definition cache_clear :: "cache \<Rightarrow> cache" where
  "cache_clear c = []"

section \<open>The cached entry point\<close>

text \<open>
  \<^verbatim>\<open>calculateCommercialSolar\<close> (solar-calculations.ts, lines 55-204) on the module's
  cache \<open>c\<close>: it returns the result or the error raised, and the cache it leaves. The
  three clock readings are those of \<^verbatim>\<open>get\<close>, \<^verbatim>\<open>set\<close> and \<^verbatim>\<open>cleanup\<close>, in call order.
\<close>

definition calculateCommercialSolar ::
  "cache \<Rightarrow> int \<Rightarrow> int \<Rightarrow> int \<Rightarrow> SolarCalculationInputs
     \<Rightarrow> (error + SolarCalculationResults) \<times> cache" where
  "calculateCommercialSolar c t1 t2 t3 inputs =
     (case cache_get c t1 inputs of
        (Some cachedResult, c') \<Rightarrow> (Inr cachedResult, c')
      | (None, c') \<Rightarrow>
          (case compute inputs of
             Inl e \<Rightarrow> (Inl e, c')
           | Inr res \<Rightarrow> (Inr res, cache_set c' t2 t3 inputs res)))"

text \<open>
  The states of the module's cache: it starts empty (line 76) and is changed only by
  calls of \<^verbatim>\<open>calculateCommercialSolar\<close>, the one user of the exported instance, and by
  \<^verbatim>\<open>clear\<close>.
\<close>

inductive reachable :: "cache \<Rightarrow> bool" where
  initial: "reachable []"
| call: "reachable c \<Longrightarrow> reachable (snd (calculateCommercialSolar c t1 t2 t3 inputs))"
| cleared: "reachable c \<Longrightarrow> reachable (cache_clear c)"

section \<open>Auxiliary definitions\<close>

text \<open>
  An input passes the validation of lines 79-85 when neither guard fires. Every input
  that is valid in the sense of the specification (positive numbers, options taken from
  the recognised values) passes it.
\<close>

definition passes_validation :: "SolarCalculationInputs \<Rightarrow> bool" where
  "passes_validation i =
     (0 < systemSize i \<and> 0 < monthlyUsage i \<and> 0 < currentBill i
      \<and> rateTier i \<noteq> [] \<and> installationType i \<noteq> [] \<and> panelQuality i \<noteq> []
      \<and> batteryStorage i \<noteq> [])"

text \<open>A list of entries is a state of a \<^verbatim>\<open>Map\<close> when its keys are distinct.\<close>

definition is_Map :: "cache \<Rightarrow> bool" where
  "is_Map c = distinct (map fst c)"

text \<open>
  The invariant of the module's cache: it is a \<^verbatim>\<open>Map\<close>, and an entry holds the direct
  computation of its key's input.
\<close>

definition cache_inv :: "cache \<Rightarrow> bool" where
  "cache_inv c =
     (is_Map c
      \<and> (\<forall>i e. map_of c (generateKey i) = Some e \<longrightarrow> compute i = Inr (result e)))"

text \<open>
  Example data. \<open>scenario_1\<close> is example scenario 1 of the specification with a monthly
  usage of 1000 kWh, a bill of 500 CAD and a location outside the irradiance table;
  \<open>result_1\<close> is what the engine returns for it. \<open>scenario_2\<close> is example scenario 2.
  \<open>full_cache\<close> holds one hundred entries stored at time 0, for the system sizes 1 to
  100 of scenario 1.
\<close>

definition scenario_1 :: SolarCalculationInputs where
  "scenario_1 =
     \<lparr>systemSize = 100, monthlyUsage = 1000, currentBill = 500,
      rateTier = ''Medium General Service'', installationType = ''Roof-Mount'',
      panelQuality = ''Standard'', batteryStorage = ''None'', location = ''Nanaimo''\<rparr>"

definition result_1 :: SolarCalculationResults where
  "result_1 =
     \<lparr>systemSizeKw = 100, annualProduction = Fin 102383, totalCost = Fin 175000,
      cleanBcRebates = Fin 50000, federalIncentives = Fin 52500, netCost = Fin 72500,
      annualSavings = Fin 10842, paybackPeriod = Fin 6.7, roi25Year = Fin 273.9,
      co2OffsetAnnual = Fin 43\<rparr>"

definition scenario_2 :: SolarCalculationInputs where
  "scenario_2 =
     \<lparr>systemSize = 500, monthlyUsage = 1000, currentBill = 500,
      rateTier = ''Medium General Service'', installationType = ''Tracker System'',
      panelQuality = ''Premium Tier 1'', batteryStorage = ''200kWh+ Custom Solution'',
      location = ''Nanaimo''\<rparr>"

definition full_cache :: cache where
  "full_cache =
     map (\<lambda>n. (generateKey (scenario_1\<lparr>systemSize := 1 + real n\<rparr>),
                \<lparr>result = result_1, timestamp = 0\<rparr>)) [0..<100]"

section \<open>Basic facts\<close>

lemma times_Fin [simp]: "Fin a * Fin b = Fin (a * b)"
  by (simp add: times_number_def)

lemma times_NaN [simp]: "NaN * x = NaN" "x * NaN = NaN"
  by (cases x; simp add: times_number_def)+

lemma minus_Fin [simp]: "Fin a - Fin b = Fin (a - b)"
  by (simp add: minus_number_def)

lemma minus_NaN [simp]: "NaN - x = NaN" "x - NaN = NaN"
  by (cases x; simp add: minus_number_def)+

lemma divide_Fin:
  "Fin a / Fin b =
     (if b \<noteq> 0 then Fin (a / b) else if a = 0 then NaN else if 0 < a then PosInf else NegInf)"
  by (simp add: divide_number_inst)

lemma divide_Fin_nonzero [simp]: "b \<noteq> 0 \<Longrightarrow> Fin a / Fin b = Fin (a / b)"
  by (simp add: divide_number_inst)

lemma divide_NaN [simp]: "NaN / x = NaN" "x / NaN = NaN"
  by (cases x; simp add: divide_number_inst)+

lemma compute_passes:
  "passes_validation i \<Longrightarrow>
   compute i = Inr \<lparr>
     systemSizeKw = systemSize i,
     annualProduction = Math_round (annualProduction_raw i),
     totalCost = Math_round (Fin (totalCost_raw i)),
     cleanBcRebates = Math_round (Fin (cleanBcRebates_raw i)),
     federalIncentives = Math_round (Fin (federalIncentives_raw i)),
     netCost = Math_round (Fin (netCost_raw i)),
     annualSavings = Math_round (annualSavings_raw i),
     paybackPeriod = Math_round (paybackPeriod_raw i * Fin 10) / Fin 10,
     roi25Year = Math_round (roi25Year_raw i * Fin 10) / Fin 10,
     co2OffsetAnnual = Math_round (co2OffsetAnnual_raw i * Fin 10) / Fin 10 \<rparr>"
  by (simp add: compute_def passes_validation_def not_le)

lemma compute_fails:
  "\<not> passes_validation i \<Longrightarrow>
   compute i =
     Inl (if systemSize i \<le> 0 \<or> monthlyUsage i \<le> 0 \<or> currentBill i \<le> 0
          then Must_be_positive_numbers else Options_must_be_selected)"
  by (auto simp add: compute_def passes_validation_def not_le)

lemma round_half_up_of_int [simp]: "round_half_up (of_int n) = of_int n"
  by (simp add: round_half_up_def)

lemma round_half_up_Ints: "x \<in> \<int> \<Longrightarrow> round_half_up x = x"
  by (auto elim: Ints_cases)

lemma compute_cong:
  assumes "systemSize i = systemSize j" and "monthlyUsage i = monthlyUsage j"
    and "currentBill i = currentBill j" and "rateTier i = rateTier j"
    and "location i = location j"
    and "systemEfficiency i = systemEfficiency j" and "totalCost_raw i = totalCost_raw j"
    and "(installationType i = []) = (installationType j = [])"
    and "(panelQuality i = []) = (panelQuality j = [])"
    and "(batteryStorage i = []) = (batteryStorage j = [])"
  shows "compute i = compute j"
proof -
  have prod: "annualProduction_raw i = annualProduction_raw j"
    using assms by (simp add: annualProduction_raw_def peakSunHours_def irradiance_def
        locationKey_def)
  have net: "netCost_raw i = netCost_raw j"
    using assms by (simp add: netCost_raw_def federalIncentives_raw_def cleanBcRebates_raw_def)
  have sav: "annualSavings_raw i = annualSavings_raw j"
    using assms prod by (simp add: annualSavings_raw_def energyRate_def)
  show ?thesis
    using assms prod net sav
    by (simp add: compute_def federalIncentives_raw_def cleanBcRebates_raw_def
        paybackPeriod_raw_def totalSavings25Year_def roi25Year_raw_def
        co2OffsetAnnual_raw_def)
qed

lemma compute_installationType_fallback:
  assumes "installationType i \<noteq> []"
    and "installationType i \<notin> set [''Ground-Mount'', ''Carport/Canopy'', ''Tracker System'']"
  shows "compute i = compute (i\<lparr>installationType := ''Roof-Mount''\<rparr>)"
  using assms
  by (intro compute_cong)
    (simp_all add: systemEfficiency_def totalCost_raw_def baseCostPerKw_def Let_def cong: if_cong)

lemma compute_panelQuality_fallback:
  assumes "panelQuality i \<noteq> []"
    and "panelQuality i \<notin> set [''High Efficiency'', ''Premium Tier 1'']"
  shows "compute i = compute (i\<lparr>panelQuality := ''Standard''\<rparr>)"
  using assms
  by (intro compute_cong)
    (simp_all add: systemEfficiency_def totalCost_raw_def baseCostPerKw_def Let_def cong: if_cong)

lemma compute_batteryStorage_fallback:
  assumes "batteryStorage i \<noteq> []"
    and "batteryStorage i \<notin> set [''50kWh Commercial Battery'', ''100kWh Commercial Battery'',
              ''200kWh+ Custom Solution'']"
  shows "compute i = compute (i\<lparr>batteryStorage := ''None''\<rparr>)"
  using assms
  by (intro compute_cong)
    (simp_all add: systemEfficiency_def totalCost_raw_def baseCostPerKw_def Let_def cong: if_cong)

section \<open>Facts about the cache\<close>

lemma generateKey_inj: "generateKey i = generateKey j \<longleftrightarrow> i = j"
  by (cases i; cases j) (auto simp: generateKey_def)

lemma length_update:
  "length (AList.update k v c) = (if k \<in> fst ` set c then length c else Suc (length c))"
  by (induction c) auto

lemma map_of_cleanup_loop:
  "map_of (cleanup_loop es now c) k =
     (if \<exists>e. (k, e) \<in> set es \<and> now - timestamp e > CACHE_DURATION then None
      else map_of c k)"
proof (induction es arbitrary: c)
  case Nil
  show ?case by simp
next
  case (Cons p es)
  obtain k' e' where p: "p = (k', e')"
    by (cases p)
  show ?case
    unfolding p cleanup_loop.simps Cons.IH
    by (auto simp: delete_conv)
qed

lemma is_Map_cleanup_loop: "is_Map c \<Longrightarrow> is_Map (cleanup_loop es now c)"
  unfolding is_Map_def
proof (induction es arbitrary: c)
  case Nil
  then show ?case by simp
next
  case (Cons p es)
  obtain k' e' where p: "p = (k', e')"
    by (cases p)
  from Cons.prems show ?case
    unfolding p cleanup_loop.simps
    by (intro Cons.IH) (simp add: distinct_delete)
qed

lemma lookup_cleanup:
  assumes "is_Map c"
  shows "map_of (cache_cleanup c now) k =
     (case map_of c k of
        None \<Rightarrow> None
      | Some e \<Rightarrow> if now - timestamp e > CACHE_DURATION then None else Some e)"
proof (cases "map_of c k")
  case None
  then show ?thesis
    by (simp add: cache_cleanup_def map_of_cleanup_loop)
next
  case (Some e)
  have "(k, e') \<in> set c \<longleftrightarrow> e' = e" for e'
  proof
    assume "(k, e') \<in> set c"
    with assms have "map_of c k = Some e'"
      unfolding is_Map_def by (simp add: map_of_is_SomeI)
    with Some show "e' = e"
      by simp
  next
    assume "e' = e"
    with Some show "(k, e') \<in> set c"
      by (simp add: map_of_SomeD)
  qed
  with Some show ?thesis
    by (simp add: cache_cleanup_def map_of_cleanup_loop)
qed

lemma is_Map_cleanup: "is_Map c \<Longrightarrow> is_Map (cache_cleanup c now)"
  by (simp add: cache_cleanup_def is_Map_cleanup_loop)

lemma is_Map_update: "is_Map c \<Longrightarrow> is_Map (AList.update k v c)"
  by (simp add: is_Map_def distinct_update)

lemma is_Map_delete: "is_Map c \<Longrightarrow> is_Map (AList.delete k c)"
  by (simp add: is_Map_def distinct_delete)

lemma is_Map_set: "is_Map c \<Longrightarrow> is_Map (cache_set c t t' i r)"
  by (simp add: cache_set_def Let_def is_Map_cleanup is_Map_update)

lemma lookup_set:
  assumes "is_Map c"
  shows "map_of (cache_set c t t' i r) k =
     (let c' = AList.update (generateKey i) \<lparr>result = r, timestamp = t\<rparr> c
      in if length c' > 100
         then (case map_of c' k of
                 None \<Rightarrow> None
               | Some e \<Rightarrow> if t' - timestamp e > CACHE_DURATION then None else Some e)
         else map_of c' k)"
  by (simp add: cache_set_def Let_def lookup_cleanup [OF is_Map_update [OF assms]])

lemma calc_cases:
  "calculateCommercialSolar c t1 t2 t3 i =
     (case map_of c (generateKey i) of
        None \<Rightarrow>
          (case compute i of
             Inl err \<Rightarrow> (Inl err, c)
           | Inr r \<Rightarrow> (Inr r, cache_set c t2 t3 i r))
      | Some e \<Rightarrow>
          if t1 - timestamp e > CACHE_DURATION
          then (case compute i of
                  Inl err \<Rightarrow> (Inl err, AList.delete (generateKey i) c)
                | Inr r \<Rightarrow> (Inr r, cache_set (AList.delete (generateKey i) c) t2 t3 i r))
          else (Inr (result e), c))"
  by (simp add: calculateCommercialSolar_def cache_get_def Let_def
      split: option.splits sum.splits)

lemma calc_keeps_live:
  assumes "is_Map c" and "map_of c k = Some e"
    and "\<not> t1 - timestamp e > CACHE_DURATION" and "\<not> t3 - timestamp e > CACHE_DURATION"
  shows "map_of (snd (calculateCommercialSolar c t1 t2 t3 i)) k = Some e"
proof (cases "k = generateKey i")
  case True
  with assms show ?thesis
    by (auto simp: calc_cases)
next
  case False
  with assms show ?thesis
    by (auto simp: calc_cases lookup_set is_Map_delete delete_conv update_conv Let_def
        split: option.splits sum.splits)
qed

lemma inv_set:
  assumes "cache_inv c" and "compute i = Inr r"
  shows "cache_inv (cache_set c t t' i r)"
proof -
  have m: "is_Map c"
    using assms(1) by (simp add: cache_inv_def)
  show ?thesis
    using assms unfolding cache_inv_def
    by (auto simp: lookup_set [OF m] is_Map_set update_conv Let_def generateKey_inj
        split: option.splits if_splits)
qed

lemma inv_delete: "cache_inv c \<Longrightarrow> cache_inv (AList.delete k c)"
  unfolding cache_inv_def by (auto simp: is_Map_delete delete_conv split: if_splits)

lemma inv_step: "cache_inv c \<Longrightarrow> cache_inv (snd (calculateCommercialSolar c t1 t2 t3 i))"
  by (auto simp: calc_cases inv_set inv_delete split: option.splits sum.splits)

lemma inv_empty: "cache_inv []"
  by (simp add: cache_inv_def is_Map_def)

lemma reachable_inv: "reachable c \<Longrightarrow> cache_inv c"
  by (induction rule: reachable.induct) (simp_all add: inv_step cache_clear_def inv_empty)

lemma calc_transparent:
  "reachable c \<Longrightarrow> fst (calculateCommercialSolar c t1 t2 t3 i) = compute i"
  using reachable_inv [of c]
  by (auto simp: calc_cases cache_inv_def split: option.splits sum.splits)

lemma calc_invalid:
  "reachable c \<Longrightarrow> compute i = Inl e \<Longrightarrow> calculateCommercialSolar c t1 t2 t3 i = (Inl e, c)"
  using reachable_inv [of c]
  by (auto simp: calc_cases cache_inv_def split: option.splits sum.splits)

lemma calc_empty: "fst (calculateCommercialSolar [] t1 t2 t3 i) = compute i"
  by (simp add: calc_cases split: sum.splits)

lemma cache_set_empty:
  "cache_set [] t t' i r = [(generateKey i, \<lparr>result = r, timestamp = t\<rparr>)]"
  by (simp add: cache_set_def)

lemma scenario_1_passes: "passes_validation scenario_1"
  by (simp add: passes_validation_def scenario_1_def)

lemma compute_scenario_1: "compute scenario_1 = Inr result_1"
  by (simp add: compute_passes scenario_1_passes result_1_def) code_simp

lemma first_call:
  "calculateCommercialSolar [] t1 t2 t3 scenario_1 =
     (Inr result_1, [(generateKey scenario_1, \<lparr>result = result_1, timestamp = t2\<rparr>)])"
  by (simp add: calc_cases compute_scenario_1 cache_set_empty)

lemma key_eq_iff:
  "generateKey (scenario_1\<lparr>systemSize := a\<rparr>) = generateKey (scenario_1\<lparr>systemSize := b\<rparr>)
     \<longleftrightarrow> a = b"
  by (simp add: generateKey_def)

lemma full_cache_keys:
  "fst ` set full_cache =
     (\<lambda>n. generateKey (scenario_1\<lparr>systemSize := 1 + real n\<rparr>)) ` {0..<100}"
  by (simp add: full_cache_def image_image)

lemma full_cache_is_Map: "is_Map full_cache"
  by (simp add: is_Map_def full_cache_def comp_def distinct_map inj_on_def key_eq_iff)

lemma full_cache_lookup:
  "map_of full_cache k =
     (if k \<in> (\<lambda>n. generateKey (scenario_1\<lparr>systemSize := 1 + real n\<rparr>)) ` {0..<100}
      then Some \<lparr>result = result_1, timestamp = 0\<rparr> else None)"
proof -
  have "map_of (map (\<lambda>n. (generateKey (scenario_1\<lparr>systemSize := 1 + real n\<rparr>),
                   \<lparr>result = result_1, timestamp = 0\<rparr>)) ns) k =
     (if k \<in> (\<lambda>n. generateKey (scenario_1\<lparr>systemSize := 1 + real n\<rparr>)) ` set ns
      then Some \<lparr>result = result_1, timestamp = 0\<rparr> else None)" for ns :: "nat list"
    by (induction ns) auto
  then show ?thesis
    by (simp add: full_cache_def)
qed

lemma full_cache_size: "length full_cache = 100"
  by (simp add: full_cache_def)

section \<open>Example scenario 1\<close>

text \<open>
  Claim C1, as the code has it. For an input with \<open>systemSize = 100\<close>, a location
  whose look-up in the irradiance table finds nothing (so that the provincial average
  3.3 applies; a name that every object inherits, such as \<^verbatim>\<open>constructor\<close>, is found), panel
  quality Standard, installation type Roof-Mount, no battery, the rate tier
  "Medium General Service" and any positive monthly usage and bill,
  \<^verbatim>\<open>calculateCommercialSolar\<close> returns, on every state of its cache,
  \<open>annualProduction = 102383\<close> (the rounding of \<open>100 \<times> 3.3 \<times> 365 \<times> 0.85 = 102382.5\<close>),
  \<open>totalCost = 175000\<close>, \<open>cleanBcRebates = 50000\<close>, \<open>federalIncentives = 52500\<close>,
  \<open>netCost = 72500\<close>, \<open>annualSavings = 10842\<close> (the rounding of
  \<open>102382.5 \<times> 0.1059 = 10842.30675\<close>) and \<open>paybackPeriod = 6.7\<close>; the monetary outputs
  are whole numbers and the payback period has one decimal place.
\<close>

theorem scenario_1_values:
  assumes "systemSize i = 100"
    and "panelQuality i = ''Standard''"
    and "installationType i = ''Roof-Mount''"
    and "batteryStorage i = ''None''"
    and "rateTier i = ''Medium General Service''"
    and "0 < monthlyUsage i" and "0 < currentBill i"
    and "get_property BC_SOLAR_IRRADIANCE (locationKey i) = Undefined"
    and "reachable c"
  shows "fst (calculateCommercialSolar c t1 t2 t3 i) =
     Inr \<lparr>systemSizeKw = 100, annualProduction = Fin 102383, totalCost = Fin 175000,
      cleanBcRebates = Fin 50000, federalIncentives = Fin 52500, netCost = Fin 72500,
      annualSavings = Fin 10842, paybackPeriod = Fin 6.7, roi25Year = Fin 273.9,
      co2OffsetAnnual = Fin 43\<rparr>"
proof -
  have valid: "passes_validation i"
    using assms by (simp add: passes_validation_def)
  have irr: "irradiance i = Num 3.3"
    using assms(8)
    by (simp add: irradiance_def or_else_def get_property_def BC_SOLAR_IRRADIANCE_def)
  have rate: "energyRate i = Num 0.1059"
    using assms(5)
    by (simp add: energyRate_def or_else_def get_property_def BC_COMMERCIAL_RATES_def)
  have eff: "systemEfficiency i = 0.85"
    using assms by (simp add: systemEfficiency_def)
  have cost: "totalCost_raw i = 175000"
    using assms by (simp add: totalCost_raw_def baseCostPerKw_def)
  have rebate: "cleanBcRebates_raw i = 50000"
    using assms by (simp add: cleanBcRebates_raw_def)
  have prod: "annualProduction_raw i = Fin 102382.5"
    using assms(1) irr eff by (simp add: annualProduction_raw_def peakSunHours_def)
  have net: "netCost_raw i = 72500"
    using cost rebate by (simp add: netCost_raw_def federalIncentives_raw_def)
  have sav: "annualSavings_raw i = Fin (102382.5 * 0.1059)"
    using prod rate by (simp add: annualSavings_raw_def)
  have "compute i =
     Inr \<lparr>systemSizeKw = 100, annualProduction = Fin 102383, totalCost = Fin 175000,
      cleanBcRebates = Fin 50000, federalIncentives = Fin 52500, netCost = Fin 72500,
      annualSavings = Fin 10842, paybackPeriod = Fin 6.7, roi25Year = Fin 273.9,
      co2OffsetAnnual = Fin 43\<rparr>"
    using assms(1) cost rebate prod net sav
    by (simp add: compute_passes [OF valid] federalIncentives_raw_def paybackPeriod_raw_def
        roi25Year_raw_def totalSavings25Year_def co2OffsetAnnual_raw_def round_half_up_def)
  with assms(9) show ?thesis
    by (simp add: calc_transparent)
qed

text \<open>The theorem at \<open>scenario_1\<close>, on the cache left by a first call for \<open>scenario_2\<close>.\<close>

theorem scenario_1_values_witness:
  "fst (calculateCommercialSolar
         (snd (calculateCommercialSolar [] 0 0 0 scenario_2)) 1 1 1 scenario_1) =
     Inr result_1"
proof -
  have key: "get_property BC_SOLAR_IRRADIANCE (locationKey scenario_1) = Undefined"
    by code_simp
  have "reachable (snd (calculateCommercialSolar [] 0 0 0 scenario_2))"
    by (rule reachable.call [OF reachable.initial])
  from scenario_1_values [OF _ _ _ _ _ _ _ key this, where ?t1.0 = 1 and ?t2.0 = 1
      and ?t3.0 = 1] show ?thesis
    by (simp add: scenario_1_def result_1_def)
qed

text \<open>
  The values of the claim as stated, 102424 kWh and 10847 CAD, are not what is returned:
  on the empty cache the call for scenario 1 returns 102383 and 10842.
\<close>

theorem scenario_1_stated_values_counterexample:
  "annualProduction (projr (fst (calculateCommercialSolar [] 0 0 0
      \<lparr>systemSize = 100, monthlyUsage = 1000, currentBill = 500,
       rateTier = ''Medium General Service'', installationType = ''Roof-Mount'',
       panelQuality = ''Standard'', batteryStorage = ''None'',
       location = ''Nanaimo''\<rparr>))) = Fin 102383
   \<and> annualProduction (projr (fst (calculateCommercialSolar [] 0 0 0
      \<lparr>systemSize = 100, monthlyUsage = 1000, currentBill = 500,
       rateTier = ''Medium General Service'', installationType = ''Roof-Mount'',
       panelQuality = ''Standard'', batteryStorage = ''None'',
       location = ''Nanaimo''\<rparr>))) \<noteq> Fin 102424
   \<and> annualSavings (projr (fst (calculateCommercialSolar [] 0 0 0
      \<lparr>systemSize = 100, monthlyUsage = 1000, currentBill = 500,
       rateTier = ''Medium General Service'', installationType = ''Roof-Mount'',
       panelQuality = ''Standard'', batteryStorage = ''None'',
       location = ''Nanaimo''\<rparr>))) = Fin 10842
   \<and> annualSavings (projr (fst (calculateCommercialSolar [] 0 0 0
      \<lparr>systemSize = 100, monthlyUsage = 1000, currentBill = 500,
       rateTier = ''Medium General Service'', installationType = ''Roof-Mount'',
       panelQuality = ''Standard'', batteryStorage = ''None'',
       location = ''Nanaimo''\<rparr>))) \<noteq> Fin 10847"
  using compute_scenario_1
  by (simp add: calc_empty scenario_1_def result_1_def)

section \<open>The provincial rebate\<close>




section \<open>Validation and unrecognised options\<close>

text \<open>
  Claim C3, as the code has it. On every state of the cache,
  \<^verbatim>\<open>calculateCommercialSolar\<close> raises "must be positive numbers" exactly when a numeric
  field is not positive, and "all configuration options must be selected" exactly when
  the numbers are positive and one of the four option strings is empty; otherwise it
  returns a result. A non-empty installation type, panel quality or battery storage that
  is none of the values the \<^verbatim>\<open>switch\<close> statements name raises nothing: the result is
  that of Roof-Mount, Standard and None, the unadjusted cases. These three fields fall
  back silently, as the location and the rate tier do.
\<close>

theorem unrecognised_options_fall_back:
  assumes "reachable c"
  shows "(fst (calculateCommercialSolar c t1 t2 t3 i) = Inl Must_be_positive_numbers
            \<longleftrightarrow> systemSize i \<le> 0 \<or> monthlyUsage i \<le> 0 \<or> currentBill i \<le> 0)
      \<and> (fst (calculateCommercialSolar c t1 t2 t3 i) = Inl Options_must_be_selected
            \<longleftrightarrow> 0 < systemSize i \<and> 0 < monthlyUsage i \<and> 0 < currentBill i
                \<and> (rateTier i = [] \<or> installationType i = [] \<or> panelQuality i = []
                    \<or> batteryStorage i = []))
      \<and> ((\<exists>r. fst (calculateCommercialSolar c t1 t2 t3 i) = Inr r) \<longleftrightarrow> passes_validation i)
      \<and> (installationType i \<noteq> []
           \<and> installationType i \<notin> set [''Ground-Mount'', ''Carport/Canopy'', ''Tracker System'']
          \<longrightarrow> fst (calculateCommercialSolar c t1 t2 t3 i) =
              fst (calculateCommercialSolar c t1 t2 t3 (i\<lparr>installationType := ''Roof-Mount''\<rparr>)))
      \<and> (panelQuality i \<noteq> []
           \<and> panelQuality i \<notin> set [''High Efficiency'', ''Premium Tier 1'']
          \<longrightarrow> fst (calculateCommercialSolar c t1 t2 t3 i) =
              fst (calculateCommercialSolar c t1 t2 t3 (i\<lparr>panelQuality := ''Standard''\<rparr>)))
      \<and> (batteryStorage i \<noteq> []
           \<and> batteryStorage i \<notin> set [''50kWh Commercial Battery'', ''100kWh Commercial Battery'',
                ''200kWh+ Custom Solution'']
          \<longrightarrow> fst (calculateCommercialSolar c t1 t2 t3 i) =
              fst (calculateCommercialSolar c t1 t2 t3 (i\<lparr>batteryStorage := ''None''\<rparr>)))"
proof -
  have calc: "fst (calculateCommercialSolar c t1 t2 t3 j) = compute j" for j
    using assms by (rule calc_transparent)
  have 1: "compute i = Inl Must_be_positive_numbers
      \<longleftrightarrow> systemSize i \<le> 0 \<or> monthlyUsage i \<le> 0 \<or> currentBill i \<le> 0"
    by (simp add: compute_def)
  have 2: "compute i = Inl Options_must_be_selected
      \<longleftrightarrow> 0 < systemSize i \<and> 0 < monthlyUsage i \<and> 0 < currentBill i
                \<and> (rateTier i = [] \<or> installationType i = [] \<or> panelQuality i = []
                    \<or> batteryStorage i = [])"
    by (auto simp add: compute_def)
  have 3: "(\<exists>r. compute i = Inr r) \<longleftrightarrow> passes_validation i"
    by (cases "passes_validation i") (simp_all add: compute_passes compute_fails)
  show ?thesis
    unfolding calc using 1 2 3
    by (simp add: compute_installationType_fallback [symmetric]
        compute_panelQuality_fallback [symmetric] compute_batteryStorage_fallback [symmetric])
qed

theorem unrecognised_options_fall_back_witness:
  "fst (calculateCommercialSolar [] 0 0 0
         (scenario_1\<lparr>installationType := ''Floating''\<rparr>)) = Inr result_1"
proof -
  have same: "scenario_1\<lparr>installationType := ''Roof-Mount''\<rparr> = scenario_1"
    by (simp add: scenario_1_def)
  have "fst (calculateCommercialSolar [] 0 0 0
          (scenario_1\<lparr>installationType := ''Floating''\<rparr>)) =
        fst (calculateCommercialSolar [] 0 0 0 scenario_1)"
    using unrecognised_options_fall_back [OF reachable.initial, where ?t1.0 = 0
        and ?t2.0 = 0 and ?t3.0 = 0
        and i = "scenario_1\<lparr>installationType := ''Floating''\<rparr>"]
    by (simp add: same)
  then show ?thesis
    by (simp add: calc_empty compute_scenario_1)
qed

text \<open>
  An input whose installation type, panel quality and battery storage are all
  non-empty and unrecognised is not rejected: it gets the result of scenario 1.
\<close>

theorem unrecognised_options_counterexample:
  "fst (calculateCommercialSolar [] 0 0 0
      \<lparr>systemSize = 100, monthlyUsage = 1000, currentBill = 500,
       rateTier = ''Medium General Service'', installationType = ''Floating'',
       panelQuality = ''Bifacial'', batteryStorage = ''Flywheel'',
       location = ''Nanaimo''\<rparr>) =
     Inr \<lparr>systemSizeKw = 100, annualProduction = Fin 102383, totalCost = Fin 175000,
      cleanBcRebates = Fin 50000, federalIncentives = Fin 52500, netCost = Fin 72500,
      annualSavings = Fin 10842, paybackPeriod = Fin 6.7, roi25Year = Fin 273.9,
      co2OffsetAnnual = Fin 43\<rparr>"
  unfolding calc_empty by code_simp

section \<open>Expiry of a cache entry\<close>

text \<open>
  Claim C4, as the code has it. When the cache holds an entry for the input, stored at
  time \<open>timestamp entry\<close>, \<^verbatim>\<open>get\<close> returns its result and leaves the cache as it is at
  every time up to and including \<open>timestamp entry + 5 min\<close>; at every later time it
  returns \<^verbatim>\<open>null\<close> and deletes the entry. The entry that \<^verbatim>\<open>set\<close> stores at time \<open>T\<close>
  is such an entry, unless the cleanup of that very call reads a clock more than five
  minutes past \<open>T\<close>.
\<close>

theorem get_ttl:
  assumes "map_of c (generateKey inputs) = Some entry"
  shows "cache_get c now inputs =
     (if now \<le> timestamp entry + CACHE_DURATION then (Some (result entry), c)
      else (None, AList.delete (generateKey inputs) c))
   \<and> map_of (AList.delete (generateKey inputs) c) (generateKey inputs) = None
   \<and> (is_Map d \<and> \<not> T' - T > CACHE_DURATION \<longrightarrow>
        cache_get (cache_set d T T' inputs res) now inputs =
          (if now \<le> T + CACHE_DURATION then (Some res, cache_set d T T' inputs res)
           else (None, AList.delete (generateKey inputs) (cache_set d T T' inputs res))))"
proof -
  have "map_of (cache_set d T T' inputs res) (generateKey inputs) =
      Some \<lparr>result = res, timestamp = T\<rparr>" if "is_Map d" "\<not> T' - T > CACHE_DURATION"
    using that by (simp add: lookup_set Let_def update_conv)
  then show ?thesis
    using assms by (auto simp: cache_get_def delete_conv)
qed

text \<open>
  An entry stored at time 1000 by \<^verbatim>\<open>set\<close>: a hit at 301000, a miss with removal
  at 301001.
\<close>

theorem get_ttl_witness:
  "cache_get (cache_set [] 1000 1000 scenario_1 result_1) 301000 scenario_1 =
     (Some result_1, cache_set [] 1000 1000 scenario_1 result_1)
   \<and> cache_get (cache_set [] 1000 1000 scenario_1 result_1) 301001 scenario_1 = (None, [])"
proof -
  have e: "map_of (cache_set [] 1000 1000 scenario_1 result_1) (generateKey scenario_1) =
      Some \<lparr>result = result_1, timestamp = 1000\<rparr>"
    by (simp add: cache_set_empty)
  have d: "AList.delete (generateKey scenario_1) (cache_set [] 1000 1000 scenario_1 result_1) = []"
    by (simp add: cache_set_empty AList.delete_eq)
  from get_ttl [OF e, where now = 301000] get_ttl [OF e, where now = 301001] d
  show ?thesis
    by (simp add: CACHE_DURATION_def)
qed

text \<open>
  A look-up exactly five minutes after the entry was stored, at time \<open>T + 5 min\<close> for
  \<open>T = 0\<close>, is not a miss: the result is returned and the entry stays.
\<close>

theorem get_at_five_minutes_counterexample:
  "cache_get (cache_set [] 0 0 scenario_1 result_1) (0 + 5 * 60 * 1000) scenario_1 =
     (Some result_1, cache_set [] 0 0 scenario_1 result_1)
   \<and> snd (cache_get (cache_set [] 0 0 scenario_1 result_1) (0 + 5 * 60 * 1000) scenario_1) =
     [(generateKey scenario_1, \<lparr>result = result_1, timestamp = 0\<rparr>)]"
  by (simp add: cache_set_empty cache_get_def CACHE_DURATION_def)

section \<open>Efficiency and cost stacking\<close>



section \<open>Cache transparency\<close>



section \<open>Capacity housekeeping\<close>

text \<open>
  Claim C7. On every state of the map, \<^verbatim>\<open>set\<close> runs \<^verbatim>\<open>cleanup\<close> exactly when the
  map has more than 100 entries after the insertion. \<^verbatim>\<open>cleanup\<close> removes the entries
  older than five minutes and keeps every other entry. Neither \<^verbatim>\<open>get\<close> nor \<^verbatim>\<open>set\<close>
  removes an entry that is not expired at the time of the operation, whatever the size
  of the map: \<^verbatim>\<open>get\<close> keeps every such entry, \<^verbatim>\<open>set\<close> keeps every such entry of
  another key, and the entry it writes takes the place of the one of its own key. So a
  call of \<^verbatim>\<open>calculateCommercialSolar\<close>, the user of the cache, keeps every entry that is
  not expired at its clock readings. (The remaining operation, \<^verbatim>\<open>clear\<close>, empties the
  map when its caller asks for that; nothing in the repository calls it.)
\<close>

theorem cleanup_removes_only_expired:
  assumes "is_Map c"
  shows "cache_set c now now' i r =
     (if length (AList.update (generateKey i) \<lparr>result = r, timestamp = now\<rparr> c) > 100
      then cache_cleanup (AList.update (generateKey i) \<lparr>result = r, timestamp = now\<rparr> c) now'
      else AList.update (generateKey i) \<lparr>result = r, timestamp = now\<rparr> c)
   \<and> map_of (cache_cleanup c now) k =
       (case map_of c k of
          None \<Rightarrow> None
        | Some e \<Rightarrow> if now - timestamp e > CACHE_DURATION then None else Some e)
   \<and> (map_of c k = Some e \<and> \<not> now - timestamp e > CACHE_DURATION
        \<longrightarrow> map_of (snd (cache_get c now i)) k = Some e)
   \<and> (map_of c k = Some e \<and> \<not> now' - timestamp e > CACHE_DURATION \<and> k \<noteq> generateKey i
        \<longrightarrow> map_of (cache_set c now now' i r) k = Some e)
   \<and> (\<not> now' - now > CACHE_DURATION
        \<longrightarrow> map_of (cache_set c now now' i r) (generateKey i) =
              Some \<lparr>result = r, timestamp = now\<rparr>)
   \<and> (map_of c k = Some e \<and> \<not> t1 - timestamp e > CACHE_DURATION
        \<and> \<not> t3 - timestamp e > CACHE_DURATION
        \<longrightarrow> map_of (snd (calculateCommercialSolar c t1 t2 t3 i)) k = Some e)"
proof (intro conjI impI)
  show "cache_set c now now' i r =
     (if length (AList.update (generateKey i) \<lparr>result = r, timestamp = now\<rparr> c) > 100
      then cache_cleanup (AList.update (generateKey i) \<lparr>result = r, timestamp = now\<rparr> c) now'
      else AList.update (generateKey i) \<lparr>result = r, timestamp = now\<rparr> c)"
    by (simp add: cache_set_def)
  show "map_of (cache_cleanup c now) k =
       (case map_of c k of
          None \<Rightarrow> None
        | Some e \<Rightarrow> if now - timestamp e > CACHE_DURATION then None else Some e)"
    using assms by (rule lookup_cleanup)
  show "map_of (snd (cache_get c now i)) k = Some e"
    if "map_of c k = Some e \<and> \<not> now - timestamp e > CACHE_DURATION"
    using that by (auto simp: cache_get_def Let_def delete_conv split: option.splits)
  show "map_of (cache_set c now now' i r) k = Some e"
    if "map_of c k = Some e \<and> \<not> now' - timestamp e > CACHE_DURATION \<and> k \<noteq> generateKey i"
    using that by (simp add: lookup_set [OF assms] Let_def update_conv)
  show "map_of (cache_set c now now' i r) (generateKey i) = Some \<lparr>result = r, timestamp = now\<rparr>"
    if "\<not> now' - now > CACHE_DURATION"
    using that by (simp add: lookup_set [OF assms] Let_def update_conv)
  show "map_of (snd (calculateCommercialSolar c t1 t2 t3 i)) k = Some e"
    if "map_of c k = Some e \<and> \<not> t1 - timestamp e > CACHE_DURATION
        \<and> \<not> t3 - timestamp e > CACHE_DURATION"
    using assms that by (simp add: calc_keeps_live)
qed

text \<open>
  A map of 101 entries, one hundred stored at time 0 and one at 350000: a \<^verbatim>\<open>set\<close>
  at time 400000 makes 102, so the cleanup runs; it keeps the entry of 350000 and the
  new one and removes the entries of time 0, leaving two entries. A \<^verbatim>\<open>get\<close> for
  another key keeps the live entry too.
\<close>

theorem cleanup_removes_only_expired_witness:
  "length (AList.update (generateKey scenario_2) \<lparr>result = result_1, timestamp = 350000\<rparr>
       full_cache) = 101
   \<and> map_of (cache_set
         (AList.update (generateKey scenario_2) \<lparr>result = result_1, timestamp = 350000\<rparr>
            full_cache)
         400000 400000 (scenario_2\<lparr>location := ''Tofino''\<rparr>) result_1)
       (generateKey scenario_2) = Some \<lparr>result = result_1, timestamp = 350000\<rparr>
   \<and> map_of (cache_set
         (AList.update (generateKey scenario_2) \<lparr>result = result_1, timestamp = 350000\<rparr>
            full_cache)
         400000 400000 (scenario_2\<lparr>location := ''Tofino''\<rparr>) result_1)
       (generateKey (scenario_2\<lparr>location := ''Tofino''\<rparr>)) =
       Some \<lparr>result = result_1, timestamp = 400000\<rparr>
   \<and> map_of (cache_set
         (AList.update (generateKey scenario_2) \<lparr>result = result_1, timestamp = 350000\<rparr>
            full_cache)
         400000 400000 (scenario_2\<lparr>location := ''Tofino''\<rparr>) result_1)
       (generateKey scenario_1) = None
   \<and> map_of (snd (cache_get
         (AList.update (generateKey scenario_2) \<lparr>result = result_1, timestamp = 350000\<rparr>
            full_cache)
         400000 scenario_1))
       (generateKey scenario_2) = Some \<lparr>result = result_1, timestamp = 350000\<rparr>
   \<and> map_of (snd (calculateCommercialSolar
         (AList.update (generateKey scenario_2) \<lparr>result = result_1, timestamp = 350000\<rparr>
            full_cache)
         400000 400000 400000 (scenario_2\<lparr>location := ''Tofino''\<rparr>)))
       (generateKey scenario_2) = Some \<lparr>result = result_1, timestamp = 350000\<rparr>"
proof -
  let ?e2 = "\<lparr>result = result_1, timestamp = 350000\<rparr>"
  let ?c = "AList.update (generateKey scenario_2) ?e2 full_cache"
  let ?i = "scenario_2\<lparr>location := ''Tofino''\<rparr>"
  let ?c' = "AList.update (generateKey ?i) \<lparr>result = result_1, timestamp = 400000\<rparr> ?c"
  have k2: "generateKey scenario_2 \<notin> fst ` set full_cache"
    by (auto simp: full_cache_keys generateKey_def scenario_1_def scenario_2_def)
  have k3: "generateKey ?i \<notin> fst ` set full_cache"
    by (auto simp: full_cache_keys generateKey_def scenario_1_def scenario_2_def)
  have k1: "map_of full_cache (generateKey scenario_1) =
      Some \<lparr>result = result_1, timestamp = 0\<rparr>"
  proof -
    have "generateKey scenario_1 = generateKey (scenario_1\<lparr>systemSize := 1 + real 99\<rparr>)"
      by (simp add: generateKey_def scenario_1_def)
    moreover have "(99::nat) \<in> {0..<100}"
      by simp
    ultimately have "generateKey scenario_1
        \<in> (\<lambda>n. generateKey (scenario_1\<lparr>systemSize := 1 + real n\<rparr>)) ` {0..<100}"
      by (rule image_eqI)
    then show ?thesis
      by (simp only: full_cache_lookup if_True)
  qed
  have ne: "generateKey scenario_2 \<noteq> generateKey ?i"
    "generateKey scenario_1 \<noteq> generateKey ?i" "generateKey scenario_1 \<noteq> generateKey scenario_2"
    by (simp_all add: generateKey_inj scenario_2_def scenario_1_def)
  have m: "is_Map ?c"
    by (intro is_Map_update full_cache_is_Map)
  have m': "is_Map ?c'"
    by (intro is_Map_update full_cache_is_Map)
  have size1: "length ?c = 101"
    using k2 by (simp add: length_update full_cache_size)
  have size2: "length ?c' = 102"
    using k3 ne size1 by (simp add: length_update dom_update)
  have set_eq: "cache_set ?c 400000 400000 ?i result_1 = cache_cleanup ?c' 400000"
    using size2 by (simp only: cleanup_removes_only_expired [OF m, THEN conjunct1]) simp
  have a: "map_of (cache_set ?c 400000 400000 ?i result_1) (generateKey scenario_2) = Some ?e2"
  proof -
    have "map_of ?c (generateKey scenario_2) = Some ?e2
        \<and> \<not> 400000 - timestamp ?e2 > CACHE_DURATION
        \<and> generateKey scenario_2 \<noteq> generateKey ?i"
      using ne by (simp add: CACHE_DURATION_def update_conv)
    with cleanup_removes_only_expired [OF m, where now' = 400000 and i = ?i
        and k = "generateKey scenario_2" and e = ?e2]
    show ?thesis by blast
  qed
  have b: "map_of (cache_set ?c 400000 400000 ?i result_1) (generateKey ?i) =
      Some \<lparr>result = result_1, timestamp = 400000\<rparr>"
  proof -
    have "\<not> (400000::int) - 400000 > CACHE_DURATION"
      by (simp add: CACHE_DURATION_def)
    with cleanup_removes_only_expired [OF m, where now = 400000 and now' = 400000]
    show ?thesis by blast
  qed
  have c: "map_of (cache_set ?c 400000 400000 ?i result_1) (generateKey scenario_1) = None"
  proof -
    have "map_of ?c' (generateKey scenario_1) = Some \<lparr>result = result_1, timestamp = 0\<rparr>"
      using ne k1 by (simp add: update_conv)
    then show ?thesis
      unfolding set_eq
      by (simp add: cleanup_removes_only_expired [OF m', THEN conjunct2, THEN conjunct1]
          CACHE_DURATION_def)
  qed
  have d: "map_of (snd (cache_get ?c 400000 scenario_1)) (generateKey scenario_2) = Some ?e2"
  proof -
    have "map_of ?c (generateKey scenario_2) = Some ?e2
        \<and> \<not> 400000 - timestamp ?e2 > CACHE_DURATION"
      by (simp add: CACHE_DURATION_def update_conv)
    with cleanup_removes_only_expired [OF m, where now = 400000
        and k = "generateKey scenario_2" and e = ?e2]
    show ?thesis by blast
  qed
  have e: "map_of (snd (calculateCommercialSolar ?c 400000 400000 400000 ?i))
      (generateKey scenario_2) = Some ?e2"
  proof -
    have "map_of ?c (generateKey scenario_2) = Some ?e2
        \<and> \<not> 400000 - timestamp ?e2 > CACHE_DURATION
        \<and> \<not> 400000 - timestamp ?e2 > CACHE_DURATION"
      by (simp add: CACHE_DURATION_def update_conv)
    with cleanup_removes_only_expired [OF m, where ?t1.0 = 400000 and ?t3.0 = 400000
        and k = "generateKey scenario_2" and e = ?e2]
    show ?thesis by blast
  qed
  from size1 a b c d e show ?thesis
    by simp
qed

section \<open>Unguarded arithmetic\<close>



section \<open>Determinism\<close>



section \<open>Invalid inputs and the cache\<close>



end
